theory Spec2Isabelle
  imports Main "HOL-Library.Sublist"
begin

text \<open>
  A model of the DAM SDK for Python (\<^verbatim>\<open>dam_sdk/utils.py\<close>, \<^verbatim>\<open>models.py\<close>, \<^verbatim>\<open>client.py\<close>,
  \<^verbatim>\<open>async_client.py\<close>): exceptions are values of a sum type, the effects of an upload are
  logs in a state record, and functions of the Python library and the outside world are
  parameters.  The definitions come first, the properties after them.
\<close>

section \<open>Python built-ins used by the SDK\<close>

text \<open>
  Python strings are modelled as \<open>string\<close>.  \<open>s.startswith(p)\<close> is \<open>prefix p s\<close> and
  \<open>sub in s\<close> is \<open>sublist sub s\<close> (a contiguous run of \<open>s\<close>), both from the list library.
\<close>

definition digit_char :: "nat \<Rightarrow> char" where
  "digit_char d = ''0123456789'' ! d"

text \<open>\<open>str(n)\<close> for a non-negative integer: the decimal digits, most significant first.\<close>

fun str_nat :: "nat \<Rightarrow> string" where
  "str_nat n = (if n < 10 then [digit_char n] else str_nat (n div 10) @ [digit_char (n mod 10)])"

declare str_nat.simps [simp del]

text \<open>\<open>str(i)\<close> for a Python \<open>int\<close>.\<close>

definition str_int :: "int \<Rightarrow> string" where
  "str_int i = (if i < 0 then CHR ''-'' # str_nat (nat (- i)) else str_nat (nat i))"

text \<open>
  \<open>s.replace(old, new)\<close> where \<open>old\<close> is a single character, the only way the SDK calls it:
  every occurrence of the character is replaced, left to right.
\<close>

definition replace_char :: "char \<Rightarrow> string \<Rightarrow> string \<Rightarrow> string" where
  "replace_char old new s = concat (map (\<lambda>c. if c = old then new else [c]) s)"

text \<open>\<open>s.split(sep)\<close> for a single separator character.\<close>

fun split_char :: "char \<Rightarrow> string \<Rightarrow> string list" where
  "split_char sep [] = [[]]"
| "split_char sep (c # cs) =
     (if c = sep then [] # split_char sep cs
      else (case split_char sep cs of
              [] \<Rightarrow> [[c]]
            | w # ws \<Rightarrow> (c # w) # ws))"

text \<open>
  \<open>pathlib.Path(p).name\<close> on a POSIX system: the path is cut at every \<open>/\<close>, empty
  components and \<open>.\<close> components are dropped, and the name is the last component that
  remains, or the empty string when none does (\<open>Path('/').name == ''\<close>).
\<close>

definition path_parts :: "string \<Rightarrow> string list" where
  "path_parts p = filter (\<lambda>w. w \<noteq> [] \<and> w \<noteq> ''.'') (split_char CHR ''/'' p)"

definition path_name :: "string \<Rightarrow> string" where
  "path_name p = (case path_parts p of [] \<Rightarrow> [] | w # ws \<Rightarrow> last (w # ws))"

section \<open>utils.py\<close>

subsection \<open>sanitize_filename\<close>

text \<open>The string \<^verbatim>\<open><>:"/\|?*\<close> of \<^verbatim>\<open>sanitize_filename\<close>, character by character.\<close>

definition invalid_chars :: string where
  "invalid_chars =
     [CHR ''<'', CHR ''>'', CHR '':'', CHR 0x22, CHR ''/'', CHR 0x5C, CHR ''|'', CHR ''?'', CHR ''*'']"

text \<open>
  \<^verbatim>\<open>filename = Path(filename).name\<close>, then the loop
  \<^verbatim>\<open>for char in invalid_chars: filename = filename.replace(char, '_')\<close>.
\<close>

definition sanitize_filename :: "string \<Rightarrow> string" where
  "sanitize_filename filename =
     foldl (\<lambda>name ch. replace_char ch ''_'' name) (path_name filename) invalid_chars"

subsection \<open>build_query_params\<close>

text \<open>
  The values a parameter dict holds: \<open>None\<close>, a \<open>bool\<close>, an \<open>int\<close>, a \<open>str\<close>, or a list or
  tuple of those.  (Floats and nested containers, whose \<open>str()\<close> is their \<open>repr\<close>, are not
  modelled.)  The dict itself is the list of its items in insertion order, which is the
  order \<^verbatim>\<open>params.items()\<close> yields.
\<close>

datatype atom = ANone | ABool bool | AInt int | AStr string

datatype param = Atom atom | Seq "atom list"

text \<open>\<open>str(v)\<close> on an atom.\<close>

fun py_str :: "atom \<Rightarrow> string" where
  "py_str ANone = ''None''"
| "py_str (ABool b) = (if b then ''True'' else ''False'')"
| "py_str (AInt i) = str_int i"
| "py_str (AStr s) = s"

text \<open>\<open>sep.join(parts)\<close>.\<close>

fun join :: "string \<Rightarrow> string list \<Rightarrow> string" where
  "join sep [] = []"
| "join sep [p] = p"
| "join sep (p # q # ps) = p @ sep @ join sep (q # ps)"

text \<open>
  The body of the loop of \<^verbatim>\<open>build_query_params\<close> for one item: \<open>None\<close> contributes no
  part; a \<open>bool\<close> is tested before the general case and gives \<open>str(value).lower()\<close>; a list
  or tuple is joined with commas; anything else is \<open>str(value)\<close>.
\<close>

fun query_part :: "string \<times> param \<Rightarrow> string option" where
  "query_part (key, Atom ANone) = None"
| "query_part (key, Atom (ABool b)) = Some (key @ ''='' @ (if b then ''true'' else ''false''))"
| "query_part (key, Seq vs) = Some (key @ ''='' @ join '','' (map py_str vs))"
| "query_part (key, Atom v) = Some (key @ ''='' @ py_str v)"

definition query_parts :: "(string \<times> param) list \<Rightarrow> string list" where
  "query_parts params = List.map_filter query_part params"

definition build_query_params :: "(string \<times> param) list \<Rightarrow> string" where
  "build_query_params params =
     (if params = [] then []
      else if query_parts params \<noteq> [] then ''?'' @ join ''&'' (query_parts params)
      else [])"

section \<open>models.py\<close>

subsection \<open>The derived classifications of File\<close>

text \<open>
  The three properties read only \<^verbatim>\<open>self.mime_type\<close>; the model takes that string.
\<close>

definition is_image :: "string \<Rightarrow> bool" where
  "is_image mime_type = prefix ''image/'' mime_type"

definition is_video :: "string \<Rightarrow> bool" where
  "is_video mime_type = prefix ''video/'' mime_type"

definition document_types :: "string list" where
  "document_types =
     [''application/pdf'',
      ''application/msword'',
      ''application/vnd.openxmlformats-officedocument.wordprocessingml.document'',
      ''application/vnd.ms-excel'',
      ''application/vnd.openxmlformats-officedocument.spreadsheetml.sheet'']"

definition is_document :: "string \<Rightarrow> bool" where
  "is_document mime_type = (mime_type \<in> set document_types)"

section \<open>JSON values and exceptions\<close>

text \<open>
  What \<^verbatim>\<open>json.loads\<close> returns: \<open>None\<close>, a \<open>bool\<close>, an \<open>int\<close>, a \<open>str\<close>, a \<open>list\<close> or a
  \<open>dict\<close> with string keys (the list of its items; a parsed dict has each key once).
  JSON numbers with a fraction (Python floats) are not modelled.
\<close>

datatype jvalue =
    JNull
  | JBool bool
  | JInt int
  | JStr string
  | JList "jvalue list"
  | JObj "(string \<times> jvalue) list"

text \<open>Truthiness, as \<^verbatim>\<open>if v\<close> and \<^verbatim>\<open>v or w\<close> test it.\<close>

fun truthy :: "jvalue \<Rightarrow> bool" where
  "truthy JNull = False"
| "truthy (JBool b) = b"
| "truthy (JInt i) = (i \<noteq> 0)"
| "truthy (JStr s) = (s \<noteq> [])"
| "truthy (JList xs) = (xs \<noteq> [])"
| "truthy (JObj kvs) = (kvs \<noteq> [])"

text \<open>\<^verbatim>\<open>a or b\<close>: the first operand when it is truthy, else the second.\<close>

definition py_or :: "jvalue \<Rightarrow> jvalue \<Rightarrow> jvalue" where
  "py_or a b = (if truthy a then a else b)"

text \<open>\<^verbatim>\<open>d.get(key)\<close> on a dict: \<open>None\<close> when the key is missing.\<close>

definition dict_get :: "(string \<times> jvalue) list \<Rightarrow> string \<Rightarrow> jvalue" where
  "dict_get d key = (case map_of d key of None \<Rightarrow> JNull | Some v \<Rightarrow> v)"

text \<open>
  How an f-string renders a value, \<open>str(v)\<close>.  For a list or a dict that is Python's
  \<open>repr\<close>, which is taken as the parameter \<open>repr\<close>.
\<close>

definition format_value :: "(jvalue \<Rightarrow> string) \<Rightarrow> jvalue \<Rightarrow> string" where
  "format_value repr v =
     (case v of
        JNull \<Rightarrow> ''None''
      | JBool b \<Rightarrow> (if b then ''True'' else ''False'')
      | JInt i \<Rightarrow> str_int i
      | JStr s \<Rightarrow> s
      | _ \<Rightarrow> repr v)"

text \<open>
  exceptions.py, each class with the argument it is raised with; \<open>ServerError\<close> also has
  its \<open>status_code\<close> and \<open>response_data\<close> attributes.  The last four are the Python
  built-in exceptions that the modelled code can raise without naming them.
\<close>

datatype exn =
    DAMError jvalue
  | AuthenticationError jvalue
  | AuthorizationError jvalue
  | NotFoundError jvalue
  | ValidationError jvalue
  | RateLimitError jvalue
  | FileTooLargeError jvalue
  | NetworkError jvalue
  | TimeoutError jvalue
  | ServerError jvalue "int option" "jvalue option"
  | ConfigurationError jvalue
  | AttributeError
  | TypeError string
  | ValueError
  | OSError

section \<open>client.py: the response classifier\<close>

text \<open>
  The object \<^verbatim>\<open>_handle_response\<close> receives (a \<^verbatim>\<open>requests.Response\<close>, or the
  \<^verbatim>\<open>MockResponse\<close> of the async client): its \<open>status_code\<close>, its \<open>text\<close>, and the outcome
  of calling \<open>json()\<close>, where \<open>None\<close> stands for the \<open>ValueError\<close> an undecodable body gives.
\<close>

record response =
  status_code :: int
  "text" :: string
  json :: "jvalue option"

text \<open>
  \<^verbatim>\<open>try: response_data = response.json()\<close>
  \<^verbatim>\<open>except ValueError: response_data = {'message': response.text or 'Unknown error'}\<close>
\<close>

definition response_data :: "response \<Rightarrow> jvalue" where
  "response_data response =
     (case json response of
        Some v \<Rightarrow> v
      | None \<Rightarrow> JObj [(''message'', py_or (JStr (text response)) (JStr ''Unknown error''))])"

text \<open>
  \<^verbatim>\<open>response_data.get('message') or response_data.get('error') or 'Unknown error'\<close>.
  Only a dict has \<open>get\<close>: on any other value the attribute lookup raises
  \<open>AttributeError\<close>.
\<close>

definition error_message :: "jvalue \<Rightarrow> exn + jvalue" where
  "error_message data =
     (case data of
        JObj d \<Rightarrow>
          Inr (py_or (dict_get d ''message'')
                (py_or (dict_get d ''error'') (JStr ''Unknown error'')))
      | _ \<Rightarrow> Inl AttributeError)"

definition handle_response :: "(jvalue \<Rightarrow> string) \<Rightarrow> response \<Rightarrow> exn + jvalue" where
  "handle_response repr response =
     (let data = response_data response; code = status_code response in
      if code = 200 then Inr data
      else
        (case error_message data of
           Inl e \<Rightarrow> Inl e
         | Inr msg \<Rightarrow>
             if code = 401 then Inl (AuthenticationError msg)
             else if code = 403 then Inl (AuthorizationError msg)
             else if code = 404 then Inl (NotFoundError msg)
             else if code = 413 then Inl (FileTooLargeError msg)
             else if code = 422 then Inl (ValidationError msg)
             else if code = 429 then Inl (RateLimitError msg)
             else if 500 \<le> code \<and> code < 600 then
               Inl (ServerError
                     (JStr (''Server error '' @ str_int code @ '': '' @ format_value repr msg))
                     (Some code) (Some data))
             else
               Inl (DAMError
                     (JStr (''API error '' @ str_int code @ '': '' @ format_value repr msg)))))"

section \<open>async_client.py: the request method\<close>

text \<open>
  The \<^verbatim>\<open>aiohttp\<close> response inside the \<^verbatim>\<open>async with\<close> block: its \<open>status\<close>, the result of
  \<^verbatim>\<open>await response.text()\<close> and the outcome of \<^verbatim>\<open>await response.json()\<close>.
\<close>

record ClientResponse =
  status :: int
  aio_text :: string
  aio_json :: "exn + jvalue"

text \<open>
  \<^verbatim>\<open>MockResponse(response.status, text, dict(response.headers))\<close>, whose \<open>json()\<close> is
  \<^verbatim>\<open>json_module.loads(self.text)\<close>; \<open>loads\<close> is the parser, \<open>None\<close> for the
  \<open>JSONDecodeError\<close> (a \<open>ValueError\<close>) it raises.
\<close>

definition MockResponse :: "(string \<Rightarrow> jvalue option) \<Rightarrow> int \<Rightarrow> string \<Rightarrow> response" where
  "MockResponse loads code body = \<lparr>status_code = code, text = body, json = loads body\<rparr>"

text \<open>
  The body of the \<^verbatim>\<open>async with\<close> block.  For a status other than 200 the mock response is
  handed to \<^verbatim>\<open>sync_client._handle_response\<close>; the \<^verbatim>\<open>finally\<close> only closes the throw-away
  sync client.  Otherwise, or if the classifier returned, the result is
  \<^verbatim>\<open>await response.json()\<close>.
\<close>

definition async_request_body ::
  "(jvalue \<Rightarrow> string) \<Rightarrow> (string \<Rightarrow> jvalue option) \<Rightarrow> ClientResponse \<Rightarrow> exn + jvalue" where
  "async_request_body repr loads resp =
     (if status resp \<noteq> 200 then
        (case handle_response repr (MockResponse loads (status resp) (aio_text resp)) of
           Inl e \<Rightarrow> Inl e
         | Inr _ \<Rightarrow> aio_json resp)
      else aio_json resp)"

text \<open>
  The handlers of the \<^verbatim>\<open>try\<close> statement around that block.  The first one is
  \<^verbatim>\<open>except aiohttp.ClientTimeout as e\<close>.  \<^verbatim>\<open>aiohttp.ClientTimeout\<close> is the class of timeout
  settings that \<^verbatim>\<open>__init__\<close> instantiates as \<^verbatim>\<open>aiohttp.ClientTimeout(total=timeout)\<close>; it is
  not an exception class.  When an exception reaches an \<^verbatim>\<open>except\<close> clause that names a
  class not derived from \<open>BaseException\<close>, Python 3 raises \<open>TypeError\<close> in its place
  while matching, whatever the exception is, and the later clauses are not consulted.
\<close>

definition async_except :: "exn \<Rightarrow> exn" where
  "async_except e =
     TypeError ''catching classes that do not inherit from BaseException is not allowed''"

text \<open>
  \<^verbatim>\<open>AsyncDAMClient._request\<close> from the point where the response has arrived: an exception
  leaving the block goes through the handlers, a value is returned.
\<close>

definition async_request ::
  "(jvalue \<Rightarrow> string) \<Rightarrow> (string \<Rightarrow> jvalue option) \<Rightarrow> ClientResponse \<Rightarrow> exn + jvalue" where
  "async_request repr loads resp =
     (case async_request_body repr loads resp of
        Inl e \<Rightarrow> Inl (async_except e)
      | Inr v \<Rightarrow> Inr v)"

section \<open>models.py: File.from_dict\<close>

text \<open>
  A \<^verbatim>\<open>datetime\<close> value; \<open>utcoffset\<close> is \<open>None\<close> for a naive value and the offset from UTC in
  minutes for a timezone-aware one (offsets with seconds are not modelled).  \<^verbatim>\<open>datetime.fromisoformat\<close> belongs to the Python
  library and is a parameter of the model: it returns \<open>None\<close> where the library raises
  \<open>ValueError\<close>.
\<close>

record datetime =
  year :: nat
  month :: nat
  day :: nat
  hour :: nat
  minute :: nat
  second :: nat
  microsecond :: nat
  utcoffset :: "int option"







text \<open>
  The values a field of a \<^verbatim>\<open>File\<close> can hold.  The dataclass does not check the annotated
  types, so a field holds whatever the dict held: a JSON value, or the \<^verbatim>\<open>datetime\<close> that
  \<^verbatim>\<open>from_dict\<close> stored in the dict.
\<close>

datatype pyvalue = Json jvalue | Datetime datetime

record File =
  id' :: pyvalue
  filename :: pyvalue
  original_name :: pyvalue
  mime_type :: pyvalue
  size' :: pyvalue
  storage_path :: pyvalue
  file_url :: pyvalue
  user_id :: pyvalue
  folder_id :: pyvalue
  width :: pyvalue
  height :: pyvalue
  duration :: pyvalue
  metadata :: pyvalue
  checksum :: pyvalue
  is_public :: pyvalue
  download_count :: pyvalue
  created_at :: pyvalue
  updated_at :: pyvalue

definition required_fields :: "string list" where
  "required_fields =
     [''id'', ''filename'', ''original_name'', ''mime_type'', ''size'', ''storage_path'',
      ''file_url'', ''user_id'']"

definition optional_fields :: "string list" where
  "optional_fields =
     [''folder_id'', ''width'', ''height'', ''duration'', ''metadata'', ''checksum'',
      ''is_public'', ''download_count'', ''created_at'', ''updated_at'']"

text \<open>A keyword argument of the generated \<^verbatim>\<open>__init__\<close>, or the field's default.\<close>

definition kwarg :: "(string \<times> pyvalue) list \<Rightarrow> string \<Rightarrow> jvalue \<Rightarrow> pyvalue" where
  "kwarg kw name dflt = (case map_of kw name of None \<Rightarrow> Json dflt | Some v \<Rightarrow> v)"

text \<open>
  \<^verbatim>\<open>cls(**data)\<close>: \<open>TypeError\<close> for a key that is not a field and for a missing field
  without a default; otherwise the instance, absent optional fields at their defaults.
\<close>

definition File_init :: "(string \<times> pyvalue) list \<Rightarrow> exn + File" where
  "File_init kw =
     (if \<not> set (map fst kw) \<subseteq> set (required_fields @ optional_fields) then
        Inl (TypeError ''unexpected keyword argument'')
      else if \<not> set required_fields \<subseteq> set (map fst kw) then
        Inl (TypeError ''missing required positional arguments'')
      else
        Inr \<lparr>id' = kwarg kw ''id'' JNull,
             filename = kwarg kw ''filename'' JNull,
             original_name = kwarg kw ''original_name'' JNull,
             mime_type = kwarg kw ''mime_type'' JNull,
             size' = kwarg kw ''size'' JNull,
             storage_path = kwarg kw ''storage_path'' JNull,
             file_url = kwarg kw ''file_url'' JNull,
             user_id = kwarg kw ''user_id'' JNull,
             folder_id = kwarg kw ''folder_id'' JNull,
             width = kwarg kw ''width'' JNull,
             height = kwarg kw ''height'' JNull,
             duration = kwarg kw ''duration'' JNull,
             metadata = kwarg kw ''metadata'' (JObj []),
             checksum = kwarg kw ''checksum'' JNull,
             is_public = kwarg kw ''is_public'' (JBool True),
             download_count = kwarg kw ''download_count'' (JInt 0),
             created_at = kwarg kw ''created_at'' JNull,
             updated_at = kwarg kw ''updated_at'' JNull\<rparr>)"

text \<open>\<^verbatim>\<open>data[key] = value\<close> on the list of items: an existing key keeps its place.\<close>

fun dict_set :: "string \<Rightarrow> pyvalue \<Rightarrow> (string \<times> pyvalue) list \<Rightarrow> (string \<times> pyvalue) list" where
  "dict_set key v [] = [(key, v)]"
| "dict_set key v ((k, w) # kvs) = (if k = key then (key, v) # kvs else (k, w) # dict_set key v kvs)"

text \<open>
  \<^verbatim>\<open>if created_at and isinstance(created_at, str):\<close>
  \<^verbatim>\<open>    data['created_at'] = datetime.fromisoformat(created_at.replace('Z', '+00:00'))\<close>
  for the key \<open>key\<close>: only a non-empty string is parsed; a missing key, \<open>None\<close>, the empty
  string and a value of another type leave the dict as it is.
\<close>

definition convert_timestamp ::
  "(string \<Rightarrow> datetime option) \<Rightarrow> string \<Rightarrow> (string \<times> pyvalue) list \<Rightarrow>
   exn + (string \<times> pyvalue) list" where
  "convert_timestamp fromisoformat key data =
     (case map_of data key of
        Some (Json (JStr s)) \<Rightarrow>
          if s \<noteq> [] then
            (case fromisoformat (replace_char CHR ''Z'' ''+00:00'' s) of
               None \<Rightarrow> Inl ValueError
             | Some d \<Rightarrow> Inr (dict_set key (Datetime d) data))
          else Inr data
      | _ \<Rightarrow> Inr data)"

text \<open>
  \<^verbatim>\<open>File.from_dict\<close>.  An argument that is not a dict has no \<open>get\<close>
  (\<open>AttributeError\<close>).  Both timestamps are read before either is converted; converting
  one does not change the other, so the two steps are run in sequence.
\<close>

definition from_dict :: "(string \<Rightarrow> datetime option) \<Rightarrow> jvalue \<Rightarrow> exn + File" where
  "from_dict fromisoformat data =
     (case data of
        JObj d \<Rightarrow>
          (case convert_timestamp fromisoformat ''created_at'' (map (\<lambda>(k, v). (k, Json v)) d) of
             Inl e \<Rightarrow> Inl e
           | Inr d1 \<Rightarrow>
               (case convert_timestamp fromisoformat ''updated_at'' d1 of
                  Inl e \<Rightarrow> Inl e
                | Inr d2 \<Rightarrow> File_init d2))
      | _ \<Rightarrow> Inl AttributeError)"

section \<open>models.py: TransformOptions\<close>

text \<open>
  The dataclass, with \<open>Optional[...]\<close> fields as options.  \<^verbatim>\<open>to_query_params\<close> returns a
  dict of strings, modelled as the list of its items in insertion order; each key is
  inserted at most once.
\<close>

record TransformOptions =
  width :: "int option"
  height :: "int option"
  fit :: string
  format :: "string option"
  quality :: int
  blur :: "int option"
  grayscale :: bool
  rotate :: "int option"



fun str_item :: "string \<Rightarrow> string option \<Rightarrow> (string \<times> string) list" where
  "str_item key None = []"
| "str_item key (Some s) = (if s \<noteq> [] then [(key, s)] else [])"



section \<open>client.py: uploads\<close>

record UploadOptions =
  folder_id :: "string option"
  metadata :: "(string \<times> jvalue) list option"
  original_name :: "string option"

text \<open>\<^verbatim>\<open>UploadOptions()\<close>, and \<^verbatim>\<open>options = options or UploadOptions()\<close>.\<close>

definition default_UploadOptions :: UploadOptions where
  "default_UploadOptions = \<lparr>folder_id = None, metadata = None, original_name = None\<rparr>"

definition options_or_default :: "UploadOptions option \<Rightarrow> UploadOptions" where
  "options_or_default options = (case options of None \<Rightarrow> default_UploadOptions | Some opts \<Rightarrow> opts)"

text \<open>The attributes of \<^verbatim>\<open>DAMClient\<close> that the request path reads.\<close>

record DAMClient =
  api_url :: string
  key_id :: string
  key_secret :: string
  timeout :: int
  verify_ssl :: bool

definition MAX_FILE_SIZE :: nat where
  "MAX_FILE_SIZE = 100 * 1024 * 1024"

text \<open>
  A file object is either one that the SDK opened itself (numbered in the order of the
  \<^verbatim>\<open>open\<close> calls) or one the caller passed in.  An argument of an upload method is a path
  (\<^verbatim>\<open>str\<close> or \<^verbatim>\<open>Path\<close>) or such a caller's object (\<^verbatim>\<open>BinaryIO\<close>, which has \<open>close\<close>).
\<close>

datatype handle = Opened nat | Given nat

datatype file_arg = FilePath string | FileObj nat

text \<open>One part of the multipart body: form field, then \<^verbatim>\<open>(filename, fileobj, mime_type)\<close>.\<close>

type_synonym file_part = "string \<times> string \<times> handle \<times> string"

record http_request =
  "method" :: string
  url :: string
  data :: "(string \<times> string) list"
  files :: "file_part list"

text \<open>
  What \<^verbatim>\<open>self.session.request(...)\<close> does: it raises \<^verbatim>\<open>requests.exceptions.Timeout\<close>,
  \<^verbatim>\<open>ConnectionError\<close> or another \<^verbatim>\<open>RequestException\<close> (with its text), or returns a response.
\<close>

datatype transport_result =
    Timeout
  | ConnectionError
  | RequestException string
  | Response response

text \<open>
  The world outside the SDK: \<open>getsize\<close> is \<^verbatim>\<open>os.path.getsize\<close> (\<open>None\<close>: it raises
  \<open>OSError\<close>), \<open>can_open\<close> tells whether \<^verbatim>\<open>open(path, 'rb')\<close> succeeds, \<open>guess_type\<close> is
  the first component of \<^verbatim>\<open>mimetypes.guess_type\<close>, \<open>dumps\<close> is \<^verbatim>\<open>json.dumps\<close>, \<open>send\<close> is
  the transport, \<open>repr\<close> and \<open>fromisoformat\<close> are the library functions of the sections
  above.
\<close>

record env =
  getsize :: "string \<Rightarrow> nat option"
  can_open :: "string \<Rightarrow> bool"
  guess_type :: "string \<Rightarrow> string option"
  dumps :: "jvalue \<Rightarrow> string"
  send :: "http_request \<Rightarrow> transport_result"
  repr :: "jvalue \<Rightarrow> string"
  fromisoformat :: "string \<Rightarrow> datetime option"

text \<open>
  The effects of a call, as logs: every invocation of the transport, every file the SDK
  opened, and every \<open>close()\<close> call on a file object, each in order.
\<close>

record io =
  requests :: "http_request list"
  opens :: "handle list"
  closes :: "handle list"

text \<open>utils.py: \<^verbatim>\<open>get_file_mimetype\<close> and \<^verbatim>\<open>validate_file_size\<close>.\<close>

definition get_file_mimetype :: "env \<Rightarrow> string \<Rightarrow> string" where
  "get_file_mimetype e file_path =
     (case guess_type e file_path of
        None \<Rightarrow> ''application/octet-stream''
      | Some m \<Rightarrow> (if m \<noteq> [] then m else ''application/octet-stream''))"

definition validate_file_size :: "env \<Rightarrow> string \<Rightarrow> nat \<Rightarrow> exn + bool" where
  "validate_file_size e file_path max_size =
     (case getsize e file_path of
        None \<Rightarrow> Inl OSError
      | Some file_size \<Rightarrow> Inr (file_size \<le> max_size))"

text \<open>\<^verbatim>\<open>DAMClient._request\<close>: the transport is invoked once, and the call is logged.\<close>

definition request ::
  "env \<Rightarrow> DAMClient \<Rightarrow> string \<Rightarrow> string \<Rightarrow> file_part list \<Rightarrow> (string \<times> string) list \<Rightarrow> io \<Rightarrow>
   (exn + jvalue) \<times> io" where
  "request e self meth endpoint fs form st =
     (let req = \<lparr>method = meth, url = api_url self @ endpoint, data = form, files = fs\<rparr>;
          st' = st\<lparr>requests := requests st @ [req]\<rparr>
      in (case send e req of
            Timeout \<Rightarrow>
              (Inl (TimeoutError
                     (JStr (''Request timed out after '' @ str_int (timeout self) @ '' seconds''))),
               st')
          | ConnectionError \<Rightarrow> (Inl (NetworkError (JStr ''Network connection failed'')), st')
          | RequestException msg \<Rightarrow> (Inl (DAMError (JStr (''Request failed: '' @ msg))), st')
          | Response r \<Rightarrow> (handle_response (repr e) r, st')))"

text \<open>\<^verbatim>\<open>_build_upload_data\<close>: a key is written only for a truthy option.\<close>

definition build_upload_data :: "env \<Rightarrow> UploadOptions \<Rightarrow> (string \<times> string) list" where
  "build_upload_data e options =
     str_item ''folder_id'' (folder_id options) @
     (case metadata options of
        None \<Rightarrow> []
      | Some m \<Rightarrow> (if m \<noteq> [] then [(''metadata'', dumps e (JObj m))] else [])) @
     str_item ''original_name'' (original_name options)"

text \<open>
  \<^verbatim>\<open>_upload_files\<close>: the request, then \<^verbatim>\<open>response_data.get('data', {})\<close> (which needs a
  dict) and \<^verbatim>\<open>File.from_dict\<close>.
\<close>

definition upload_files ::
  "env \<Rightarrow> DAMClient \<Rightarrow> file_part list \<Rightarrow> UploadOptions \<Rightarrow> io \<Rightarrow> (exn + File) \<times> io" where
  "upload_files e self fs options st =
     (case request e self ''POST'' ''/api/public/single'' fs (build_upload_data e options) st of
        (Inl err, st') \<Rightarrow> (Inl err, st')
      | (Inr (JObj d), st') \<Rightarrow>
          (from_dict (fromisoformat e) (case map_of d ''data'' of None \<Rightarrow> JObj [] | Some v \<Rightarrow> v),
           st')
      | (Inr _, st') \<Rightarrow> (Inl AttributeError, st'))"

text \<open>
  \<^verbatim>\<open>upload_file\<close>.  For a path: the size check, then the file name and MIME type, then
  \<^verbatim>\<open>with open(file_path, 'rb') as f\<close> around the upload, which closes \<open>f\<close> on the way out
  whether the upload returned or raised.  For a file object: the upload alone.
\<close>

definition upload_file ::
  "env \<Rightarrow> DAMClient \<Rightarrow> file_arg \<Rightarrow> UploadOptions option \<Rightarrow> io \<Rightarrow> (exn + File) \<times> io" where
  "upload_file e self file_path options st =
     (let opts = options_or_default options in
      case file_path of
        FilePath p \<Rightarrow>
          (case validate_file_size e p MAX_FILE_SIZE of
             Inl err \<Rightarrow> (Inl err, st)
           | Inr ok \<Rightarrow>
               if \<not> ok then
                 (Inl (FileTooLargeError
                        (JStr (''File exceeds maximum size of '' @ str_nat MAX_FILE_SIZE @ '' bytes''))),
                  st)
               else if \<not> can_open e p then (Inl OSError, st)
               else
                 (let f = Opened (length (opens st));
                      st1 = st\<lparr>opens := opens st @ [f]\<rparr>;
                      (r, st2) =
                        upload_files e self
                          [(''file'', sanitize_filename p, f, get_file_mimetype e p)] opts st1
                  in (r, st2\<lparr>closes := closes st2 @ [f]\<rparr>)))
      | FileObj n \<Rightarrow>
          upload_files e self
            [(''file'', ''uploaded_file'', Given n, ''application/octet-stream'')] opts st)"

text \<open>
  The loop of \<^verbatim>\<open>upload_multiple_files\<close> that assembles the list \<open>files\<close>; \<open>i\<close> is the index
  \<^verbatim>\<open>enumerate\<close> supplies.  An exception leaves the loop, and the method, at once: the loop
  stands before the \<^verbatim>\<open>try\<close> statement.
\<close>

fun assemble ::
  "env \<Rightarrow> nat \<Rightarrow> file_arg list \<Rightarrow> file_part list \<Rightarrow> io \<Rightarrow> (exn + file_part list) \<times> io" where
  "assemble e i [] fs st = (Inr fs, st)"
| "assemble e i (FilePath p # rest) fs st =
     (case validate_file_size e p MAX_FILE_SIZE of
        Inl err \<Rightarrow> (Inl err, st)
      | Inr ok \<Rightarrow>
          if \<not> ok then
            (Inl (FileTooLargeError (JStr (''File '' @ p @ '' exceeds maximum size''))), st)
          else if \<not> can_open e p then (Inl OSError, st)
          else
            (let f = Opened (length (opens st)) in
             assemble e (Suc i) rest
               (fs @ [(''files'', sanitize_filename p, f, get_file_mimetype e p)])
               (st\<lparr>opens := opens st @ [f]\<rparr>)))"
| "assemble e i (FileObj n # rest) fs st =
     assemble e (Suc i) rest
       (fs @ [(''files'', ''file_'' @ str_nat i, Given n, ''application/octet-stream'')]) st"

text \<open>
  The \<^verbatim>\<open>finally\<close> block: \<open>close()\<close> on the file object of every part, in order.
\<close>

fun close_all :: "file_part list \<Rightarrow> io \<Rightarrow> io" where
  "close_all [] st = st"
| "close_all ((field, name, f, mime) # fs) st = close_all fs (st\<lparr>closes := closes st @ [f]\<rparr>)"

text \<open>
  The file object of a part (\<^verbatim>\<open>file_tuple[1]\<close>), and whether the SDK opened it itself.
\<close>

definition fileobj :: "file_part \<Rightarrow> handle" where
  "fileobj part = fst (snd (snd part))"

fun opened_by_sdk :: "handle \<Rightarrow> bool" where
  "opened_by_sdk (Opened n) = True"
| "opened_by_sdk (Given n) = False"

text \<open>
  \<^verbatim>\<open>upload_multiple_files\<close>.  The statements of the \<^verbatim>\<open>try\<close> block after the request build
  the \<^verbatim>\<open>UploadResponse\<close> from the parsed response; they touch no file object, and their
  outcome, a value or an exception, is the parameter \<open>to_upload_response\<close>.
\<close>

definition upload_multiple_files ::
  "env \<Rightarrow> DAMClient \<Rightarrow> (jvalue \<Rightarrow> exn + 'r) \<Rightarrow> file_arg list \<Rightarrow> UploadOptions option \<Rightarrow> io \<Rightarrow>
   (exn + 'r) \<times> io" where
  "upload_multiple_files e self to_upload_response file_paths options st =
     (let opts = options_or_default options in
      case assemble e 0 file_paths [] st of
        (Inl err, st1) \<Rightarrow> (Inl err, st1)
      | (Inr fs, st1) \<Rightarrow>
          (case request e self ''POST'' ''/api/public/multiple'' fs (build_upload_data e opts) st1 of
             (r, st2) \<Rightarrow>
               ((case r of Inl err \<Rightarrow> Inl err | Inr parsed \<Rightarrow> to_upload_response parsed),
                close_all fs st2)))"

section \<open>Example inputs\<close>

text \<open>The parameter dict of the spec's example: \<^verbatim>\<open>{limit: 10, offset: 0, folder_id: None}\<close>.\<close>

definition example_params :: "(string \<times> param) list" where
  "example_params =
     [(''limit'', Atom (AInt 10)), (''offset'', Atom (AInt 0)), (''folder_id'', Atom ANone)]"

text \<open>
  Example inputs for the classifier: a \<open>repr\<close>, a parser that reads every body as the
  same error envelope, and three responses.
\<close>

definition example_repr :: "jvalue \<Rightarrow> string" where
  "example_repr v = ''<repr>''"

definition example_loads :: "string \<Rightarrow> jvalue option" where
  "example_loads s = Some (JObj [(''message'', JStr ''Invalid API key'')])"

definition example_ClientResponse :: ClientResponse where
  "example_ClientResponse =
     \<lparr>status = 401, aio_text = ''{...}'',
      aio_json = Inr (JObj [(''message'', JStr ''Invalid API key'')])\<rparr>"

definition example_response :: response where
  "example_response =
     \<lparr>status_code = 503, text = ''{...}'',
      json = Some (JObj [(''error'', JStr ''overloaded'')])\<rparr>"

definition example_bad_gateway :: response where
  "example_bad_gateway = \<lparr>status_code = 502, text = ''Bad Gateway'', json = None\<rparr>"

text \<open>
  Example inputs for the uploads: three files on disk, one of them larger than the
  maximum, a transport without a connection, a client, and the state before any call.
\<close>

definition example_getsize :: "string \<Rightarrow> nat option" where
  "example_getsize p =
     (if p = ''a.jpg'' then Some 1024
      else if p = ''b.jpg'' then Some 2048
      else if p = ''big.bin'' then Some 200000000
      else None)"

definition example_env :: env where
  "example_env =
     \<lparr>getsize = example_getsize,
      can_open = (\<lambda>p. True),
      guess_type = (\<lambda>p. None),
      dumps = (\<lambda>v. ''{}''),
      send = (\<lambda>req. ConnectionError),
      repr = example_repr,
      fromisoformat = (\<lambda>s. None)\<rparr>"

definition example_client :: DAMClient where
  "example_client =
     \<lparr>api_url = ''http://localhost:55055'', key_id = ''id'', key_secret = ''secret'',
      timeout = 30, verify_ssl = True\<rparr>"

definition empty_io :: io where
  "empty_io = \<lparr>requests = [], opens = [], closes = []\<rparr>"









section \<open>Properties of utils.py and models.py\<close>

subsection \<open>Auxiliary facts\<close>

lemma replace_char_single:
  "replace_char old [new] s = map (\<lambda>c. if c = old then new else c) s"
  by (induction s) (simp_all add: replace_char_def)

lemma foldl_replace_char:
  "r \<notin> set cs \<Longrightarrow>
   foldl (\<lambda>name ch. replace_char ch [r] name) s cs = map (\<lambda>c. if c \<in> set cs then r else c) s"
proof (induction cs arbitrary: s)
  case Nil
  then show ?case by simp
next
  case (Cons a cs)
  then have "foldl (\<lambda>name ch. replace_char ch [r] name) (replace_char a [r] s) cs =
             map (\<lambda>c. if c \<in> set cs then r else c) (replace_char a [r] s)"
    by simp
  with Cons.prems show ?case
    by (auto simp: replace_char_single)
qed

lemma split_char_no_sep: "w \<in> set (split_char sep s) \<Longrightarrow> sep \<notin> set w"
  by (induction s arbitrary: w) (auto split: if_splits list.splits)

lemma path_name_component:
  "path_name p = [] \<or> path_name p \<in> set (split_char CHR ''/'' p)"
proof (cases "path_parts p")
  case Nil
  then show ?thesis by (simp add: path_name_def)
next
  case (Cons w ws)
  then have "last (w # ws) \<in> set (path_parts p)"
    by (metis last_in_set list.distinct(1))
  then have "last (w # ws) \<in> set (split_char CHR ''/'' p)"
    unfolding path_parts_def by simp
  with Cons show ?thesis
    unfolding path_name_def by simp
qed

lemma split_char_nonempty: "split_char sep s \<noteq> []"
  by (induction s) (auto split: list.splits)

lemma split_char_no_sep_id: "sep \<notin> set s \<Longrightarrow> split_char sep s = [s]"
  by (induction s) auto

lemma split_char_append:
  "split_char sep (a @ sep # b) = split_char sep a @ split_char sep b"
proof (induction a)
  case Nil
  then show ?case by simp
next
  case (Cons c a)
  obtain w ws where w: "split_char sep a = w # ws"
    using split_char_nonempty [of sep a] by (cases "split_char sep a") auto
  with Cons show ?case
    by simp
qed

lemma path_parts_append:
  "path_parts (a @ CHR ''/'' # b) = path_parts a @ path_parts b"
  by (simp add: path_parts_def split_char_append)

lemma path_parts_name:
  "CHR ''/'' \<notin> set n \<Longrightarrow> path_parts n = (if n = [] \<or> n = ''.'' then [] else [n])"
  by (simp add: path_parts_def split_char_no_sep_id)

lemma path_name_last:
  "path_name p = (if path_parts p = [] then [] else last (path_parts p))"
  by (cases "path_parts p") (simp_all add: path_name_def)

lemma path_name_simple:
  "CHR ''/'' \<notin> set n \<Longrightarrow> n \<noteq> [] \<Longrightarrow> n \<noteq> ''.'' \<Longrightarrow> path_name n = n"
  by (simp add: path_name_last path_parts_name)

lemma path_name_strips_directory:
  "CHR ''/'' \<notin> set n \<Longrightarrow> n \<noteq> [] \<Longrightarrow> n \<noteq> ''.'' \<Longrightarrow> path_name (dir @ ''/'' @ n) = n"
  by (simp add: path_name_last path_parts_append path_parts_name)

lemma path_name_trailing_slash: "path_name (p @ ''/'') = path_name p"
  using path_parts_append [of p "[]"] by (simp add: path_name_last path_parts_name)

lemma path_name_trailing_dot: "path_name (p @ ''/.'') = path_name p"
  using path_parts_append [of p "''.''"] by (simp add: path_name_last path_parts_name)

lemma path_name_empty: "path_name [] = [] \<and> path_name ''.'' = []"
  by (simp add: path_name_last path_parts_name)


lemma path_name_no_slash: "CHR ''/'' \<notin> set (path_name p)"
  using path_name_component [of p] split_char_no_sep [of "path_name p" "CHR ''/''" p]
  by auto

lemma sublist_join: "part \<in> set parts \<Longrightarrow> sublist part (join sep parts)"
proof (induction sep parts rule: join.induct)
  case (1 sep)
  then show ?case by simp
next
  case (2 sep p)
  then show ?case by simp
next
  case (3 sep p q ps)
  show ?case
  proof (cases "part = p")
    case True
    then show ?thesis by (simp add: sublist_append)
  next
    case False
    with 3 have "sublist part (join sep (q # ps))" by simp
    then show ?thesis by (simp add: sublist_append)
  qed
qed

lemma query_part_None: "query_part (k, v) = None \<longleftrightarrow> v = Atom ANone"
proof (cases v)
  case (Atom a)
  then show ?thesis by (cases a) simp_all
next
  case (Seq vs)
  then show ?thesis by simp
qed

lemma query_parts_Nil: "query_parts [] = []"
  by (simp add: query_parts_def List.map_filter_simps)

lemma query_parts_Cons:
  "query_parts ((k, v) # ps) =
     (if v = Atom ANone then query_parts ps else the (query_part (k, v)) # query_parts ps)"
  using query_part_None [of k v]
  by (auto simp: query_parts_def List.map_filter_simps split: option.splits)

lemma query_parts_filter:
  "query_parts (filter (\<lambda>kv. snd kv \<noteq> Atom ANone) ps) = query_parts ps"
  by (induction ps) (auto simp: query_parts_Nil query_parts_Cons simp del: query_part.simps)

lemma query_parts_all_None:
  "(\<forall>kv \<in> set ps. snd kv = Atom ANone) \<Longrightarrow> query_parts ps = []"
  by (induction ps) (auto simp: query_parts_Nil query_parts_Cons simp del: query_part.simps)

lemma query_parts_mem:
  "kv \<in> set ps \<Longrightarrow> query_part kv = Some part \<Longrightarrow> part \<in> set (query_parts ps)"
proof (induction ps)
  case Nil
  then show ?case by simp
next
  case (Cons a ps)
  obtain k v where a: "a = (k, v)" by (cases a)
  show ?case
  proof (cases "kv = a")
    case True
    with Cons.prems a have "v \<noteq> Atom ANone" by auto
    with True Cons.prems a show ?thesis by (simp add: query_parts_Cons del: query_part.simps)
  next
    case False
    with Cons have "part \<in> set (query_parts ps)" by simp
    then show ?thesis by (simp add: a query_parts_Cons del: query_part.simps)
  qed
qed

lemma str_int_0: "str_int 0 = ''0''"
  by (simp add: str_int_def str_nat.simps digit_char_def)

section \<open>The claims about utils.py and the File classifications\<close>

text \<open>
  Claim C10.  For every MIME type string, at most one of \<open>is_image\<close>, \<open>is_video\<close> and
  \<open>is_document\<close> holds: \<open>is_image\<close> is the prefix \<open>image/\<close>, \<open>is_video\<close> the prefix
  \<open>video/\<close>, \<open>is_document\<close> membership in five fixed types, each of which starts with
  \<open>application/\<close> and so is neither an image nor a video type.
\<close>

theorem classifications_disjoint:
  "(is_image m \<longleftrightarrow> prefix ''image/'' m) \<and>
   (is_video m \<longleftrightarrow> prefix ''video/'' m) \<and>
   (is_document m \<longleftrightarrow> m \<in> set document_types) \<and>
   length document_types = 5 \<and>
   (\<forall>t \<in> set document_types. prefix ''application/'' t \<and> \<not> is_image t \<and> \<not> is_video t) \<and>
   \<not> (is_image m \<and> is_video m) \<and>
   \<not> (is_image m \<and> is_document m) \<and>
   \<not> (is_video m \<and> is_document m)"
  by (auto simp: is_image_def is_video_def is_document_def document_types_def prefix_def)

theorem classifications_disjoint_witness:
  "is_image ''image/jpeg'' \<and> \<not> is_video ''image/jpeg'' \<and> \<not> is_document ''image/jpeg'' \<and>
   is_document ''application/pdf'' \<and> \<not> is_image ''application/pdf''"
  using classifications_disjoint [of "''image/jpeg''"]
    classifications_disjoint [of "''application/pdf''"]
  by (simp add: is_image_def is_document_def document_types_def)

text \<open>
  Claim C9.  \<open>sanitize_filename\<close> strips all directory components: the name it works on
  is the last component of the path, \<open>n\<close> for a path \<open>dir/n\<close> whatever \<open>dir\<close> is, where a
  trailing \<open>/\<close> and a trailing \<open>/.\<close> do not count as components; that name contains no
  \<open>/\<close>.  In it, each of the nine characters \<^verbatim>\<open><>:"/\|?*\<close> is replaced by an underscore and
  every other character is kept, so that none of the nine is left; \<^verbatim>\<open>/a/b/file<>:.jpg\<close>
  becomes \<^verbatim>\<open>file___.jpg\<close>.
\<close>

theorem sanitize_filename_spec:
  "sanitize_filename f =
     map (\<lambda>c. if c \<in> {CHR ''<'', CHR ''>'', CHR '':'', CHR 0x22, CHR ''/'', CHR 0x5C, CHR ''|'',
                       CHR ''?'', CHR ''*''}
              then CHR ''_'' else c) (path_name f) \<and>
   (CHR ''/'' \<notin> set n \<and> n \<noteq> [] \<and> n \<noteq> ''.'' \<longrightarrow>
      path_name n = n \<and> path_name (dir @ ''/'' @ n) = n) \<and>
   (CHR ''/'' \<notin> set n \<and> n \<noteq> [] \<and> n \<noteq> ''.'' \<longrightarrow>
      sanitize_filename (dir @ ''/'' @ n) =
        map (\<lambda>c. if c \<in> {CHR ''<'', CHR ''>'', CHR '':'', CHR 0x22, CHR ''/'', CHR 0x5C, CHR ''|'',
                          CHR ''?'', CHR ''*''}
                 then CHR ''_'' else c) n) \<and>
   path_name (f @ ''/'') = path_name f \<and>
   path_name (f @ ''/.'') = path_name f \<and>
   path_name [] = [] \<and>
   path_name ''.'' = [] \<and>
   (path_name f = [] \<or> path_name f \<in> set (split_char CHR ''/'' f)) \<and>
   CHR ''/'' \<notin> set (path_name f) \<and>
   set (sanitize_filename f) \<inter>
     {CHR ''<'', CHR ''>'', CHR '':'', CHR 0x22, CHR ''/'', CHR 0x5C, CHR ''|'', CHR ''?'', CHR ''*''} = {} \<and>
   sanitize_filename (''/a/b/file<>:.jpg'') = ''file___.jpg''"
proof -
  let ?bad = "{CHR ''<'', CHR ''>'', CHR '':'', CHR 0x22, CHR ''/'', CHR 0x5C, CHR ''|'', CHR ''?'',
               CHR ''*''}"
  have bad: "set invalid_chars = ?bad"
    by (simp add: invalid_chars_def)
  have inv: "CHR ''_'' \<notin> set invalid_chars"
    by (simp add: invalid_chars_def)
  have eq: "sanitize_filename g =
      map (\<lambda>c. if c \<in> ?bad then CHR ''_'' else c) (path_name g)" for g
    unfolding sanitize_filename_def bad [symmetric] using foldl_replace_char [OF inv] by simp
  have disj: "set (sanitize_filename f) \<inter> ?bad = {}"
    unfolding eq by auto
  have ex: "sanitize_filename (''/a/b/file<>:.jpg'') = ''file___.jpg''"
    by code_simp
  have nm: "path_name n = n \<and> path_name (dir @ ''/'' @ n) = n"
    if "CHR ''/'' \<notin> set n \<and> n \<noteq> [] \<and> n \<noteq> ''.''"
    using that path_name_simple [of n] path_name_strips_directory [of n dir] by blast
  show ?thesis
    apply (intro conjI impI)
    subgoal by (rule eq)
    subgoal using nm by blast
    subgoal using nm by blast
    subgoal using nm eq [of "dir @ ''/'' @ n"] by simp
    subgoal by (rule path_name_trailing_slash)
    subgoal by (rule path_name_trailing_dot)
    subgoal using path_name_empty by blast
    subgoal using path_name_empty by blast
    subgoal by (rule path_name_component)
    subgoal by (rule path_name_no_slash)
    subgoal using disj .
    subgoal using ex .
    done
qed

theorem sanitize_filename_spec_witness:
  "CHR ''/'' \<notin> set ''file:x.jpg'' \<and>
   path_name (''/path/to'' @ ''/'' @ ''file:x.jpg'') = ''file:x.jpg'' \<and>
   sanitize_filename ''/path/to/file:x.jpg'' = ''file_x.jpg''"
proof -
  note spec_f = sanitize_filename_spec [of "''/path/to/file:x.jpg''" "''file:x.jpg''" "''/path/to''"]
  have h: "CHR ''/'' \<notin> set ''file:x.jpg'' \<and> ''file:x.jpg'' \<noteq> [] \<and> ''file:x.jpg'' \<noteq> ''.''"
    by simp
  have p: "path_name (''/path/to'' @ ''/'' @ ''file:x.jpg'') = ''file:x.jpg''"
    using spec_f h by blast
  then have p': "path_name ''/path/to/file:x.jpg'' = ''file:x.jpg''"
    by simp
  have "sanitize_filename ''/path/to/file:x.jpg'' =
     map (\<lambda>c. if c \<in> {CHR ''<'', CHR ''>'', CHR '':'', CHR 0x22, CHR ''/'', CHR 0x5C, CHR ''|'',
                       CHR ''?'', CHR ''*''}
              then CHR ''_'' else c) (path_name ''/path/to/file:x.jpg'')"
    using spec_f by blast
  then have s: "sanitize_filename ''/path/to/file:x.jpg'' = ''file_x.jpg''"
    unfolding p' by simp
  from h p s show ?thesis
    by blast
qed

text \<open>
  Claim C8.  \<open>build_query_params\<close> omits every key whose value is \<open>None\<close> (dropping those
  items from the dict does not change the result) and keeps a key whose value is \<open>0\<close>;
  for \<^verbatim>\<open>{limit: 10, offset: 0, folder_id: None}\<close> the result contains
  \<^verbatim>\<open>limit=10&offset=0\<close> and does not contain \<^verbatim>\<open>folder_id\<close>; a dict whose values are all
  \<open>None\<close>, and the empty dict, give the empty string.
\<close>

theorem build_query_params_spec:
  "build_query_params ps = build_query_params (filter (\<lambda>kv. snd kv \<noteq> Atom ANone) ps) \<and>
   ((k, Atom (AInt 0)) \<in> set ps \<longrightarrow> sublist (k @ ''=0'') (build_query_params ps)) \<and>
   build_query_params example_params = ''?limit=10&offset=0'' \<and>
   sublist ''limit=10&offset=0'' (build_query_params example_params) \<and>
   \<not> sublist ''folder_id'' (build_query_params example_params) \<and>
   ((\<forall>kv \<in> set ps. snd kv = Atom ANone) \<longrightarrow> build_query_params ps = []) \<and>
   build_query_params [] = []"
proof -
  have a: "build_query_params ps = build_query_params (filter (\<lambda>kv. snd kv \<noteq> Atom ANone) ps)"
  proof (cases "filter (\<lambda>kv. snd kv \<noteq> Atom ANone) ps = []")
    case True
    then have "\<forall>kv \<in> set ps. snd kv = Atom ANone"
      by (simp add: filter_empty_conv)
    then have "query_parts ps = []"
      by (rule query_parts_all_None)
    with True show ?thesis
      by (simp add: build_query_params_def)
  next
    case False
    then have "ps \<noteq> []" by auto
    with False show ?thesis
      by (simp add: build_query_params_def query_parts_filter)
  qed
  have b: "sublist (k @ ''=0'') (build_query_params ps)" if mem: "(k, Atom (AInt 0)) \<in> set ps"
  proof -
    have "query_part (k, Atom (AInt 0)) = Some (k @ ''=0'')"
      by (simp add: str_int_0)
    with mem have in_parts: "k @ ''=0'' \<in> set (query_parts ps)"
      by (rule query_parts_mem)
    then have "sublist (k @ ''=0'') (join ''&'' (query_parts ps))"
      by (rule sublist_join)
    then have "sublist (k @ ''=0'') (''?'' @ join ''&'' (query_parts ps))"
      by (simp add: sublist_Cons_right)
    moreover from mem in_parts have "ps \<noteq> []" "query_parts ps \<noteq> []"
      by auto
    ultimately show ?thesis
      by (simp add: build_query_params_def)
  qed
  have c: "build_query_params example_params = ''?limit=10&offset=0''"
    by code_simp
  have d: "sublist ''limit=10&offset=0'' (build_query_params example_params)"
    by code_simp
  have e: "\<not> sublist ''folder_id'' (build_query_params example_params)"
    by code_simp
  have f: "build_query_params ps = []" if "\<forall>kv \<in> set ps. snd kv = Atom ANone"
    using query_parts_all_None [OF that] by (simp add: build_query_params_def)
  have g: "build_query_params [] = []"
    by (simp add: build_query_params_def)
  show ?thesis
    using a b c d e f g by blast
qed

theorem build_query_params_spec_witness:
  "(''offset'', Atom (AInt 0)) \<in> set example_params \<and>
   sublist ''offset=0'' (build_query_params example_params) \<and>
   snd (''folder_id'', Atom ANone) = Atom ANone \<and>
   build_query_params [(''folder_id'', Atom ANone)] = []"
proof -
  have m: "(''offset'', Atom (AInt 0)) \<in> set example_params"
    by (simp add: example_params_def)
  have n: "\<forall>kv \<in> set [(''folder_id'', Atom ANone)]. snd kv = Atom ANone"
    by simp
  have "sublist (''offset'' @ ''=0'') (build_query_params example_params)"
    using build_query_params_spec [of example_params "''offset''"] m by blast
  then have s: "sublist ''offset=0'' (build_query_params example_params)"
    by simp
  have "build_query_params [(''folder_id'', Atom ANone)] = []"
    using build_query_params_spec [of "[(''folder_id'', Atom ANone)]" "''offset''"] n by blast
  with m s show ?thesis
    by simp
qed

section \<open>The claim about TransformOptions\<close>























section \<open>The claims about the response classifier\<close>

lemma handle_response_200:
  "status_code r = 200 \<Longrightarrow> handle_response rp r = Inr (response_data r)"
  by (simp add: handle_response_def)

lemma handle_response_not_TypeError: "handle_response rp r \<noteq> Inl (TypeError m)"
  by (cases "response_data r")
     (simp_all add: handle_response_def error_message_def Let_def)

lemma handle_response_error:
  "status_code r \<noteq> 200 \<Longrightarrow> \<exists>e. handle_response rp r = Inl e"
  by (cases "error_message (response_data r)") (simp_all add: handle_response_def Let_def)

lemma async_request_body_error_path:
  "status resp \<noteq> 200 \<Longrightarrow>
   handle_response rp (MockResponse loads (status resp) (aio_text resp)) = Inl e \<Longrightarrow>
   async_request_body rp loads resp = Inl e"
  by (simp add: async_request_body_def)

text \<open>
  Claim C1, amended.  On status 200 the classifier returns the parsed body unchanged.
  When the parsed body is a JSON object (which includes the envelope built for a body that
  is not JSON), every other status raises exactly one error: 401, 403, 404, 413, 422 and
  429 raise \<open>AuthenticationError\<close>, \<open>AuthorizationError\<close>, \<open>NotFoundError\<close>,
  \<open>FileTooLargeError\<close>, \<open>ValidationError\<close> and \<open>RateLimitError\<close> with the extracted
  message; a status from 500 to 599 raises \<open>ServerError\<close> with that status as
  \<open>status_code\<close> and the parsed body as \<open>response_data\<close>; any other status raises
  \<open>DAMError\<close> whose text holds the status and the extracted message.
\<close>

theorem handle_response_classification:
  "(status_code r = 200 \<longrightarrow> handle_response rp r = Inr (response_data r)) \<and>
   (response_data r = JObj d \<longrightarrow>
     (let msg = py_or (dict_get d ''message'') (py_or (dict_get d ''error'') (JStr ''Unknown error''));
          code = status_code r
      in (code = 401 \<longrightarrow> handle_response rp r = Inl (AuthenticationError msg)) \<and>
         (code = 403 \<longrightarrow> handle_response rp r = Inl (AuthorizationError msg)) \<and>
         (code = 404 \<longrightarrow> handle_response rp r = Inl (NotFoundError msg)) \<and>
         (code = 413 \<longrightarrow> handle_response rp r = Inl (FileTooLargeError msg)) \<and>
         (code = 422 \<longrightarrow> handle_response rp r = Inl (ValidationError msg)) \<and>
         (code = 429 \<longrightarrow> handle_response rp r = Inl (RateLimitError msg)) \<and>
         (500 \<le> code \<and> code < 600 \<longrightarrow>
            handle_response rp r =
              Inl (ServerError
                    (JStr (''Server error '' @ str_int code @ '': '' @ format_value rp msg))
                    (Some code) (Some (JObj d)))) \<and>
         (code \<notin> {200, 401, 403, 404, 413, 422, 429} \<and> \<not> (500 \<le> code \<and> code < 600) \<longrightarrow>
            handle_response rp r =
              Inl (DAMError (JStr (''API error '' @ str_int code @ '': '' @ format_value rp msg))))))"
  by (simp add: handle_response_def error_message_def Let_def)

theorem handle_response_classification_witness:
  "response_data example_response = JObj [(''error'', JStr ''overloaded'')] \<and>
   500 \<le> status_code example_response \<and> status_code example_response < 600 \<and>
   handle_response example_repr example_response =
     Inl (ServerError (JStr ''Server error 503: overloaded'') (Some 503)
           (Some (JObj [(''error'', JStr ''overloaded'')])))"
proof -
  have d: "response_data example_response = JObj [(''error'', JStr ''overloaded'')]"
    by (simp add: response_data_def example_response_def)
  have c: "status_code example_response = 503"
    by (simp add: example_response_def)
  have s: "str_int 503 = ''503''"
    by code_simp
  have m: "py_or (dict_get [(''error'', JStr ''overloaded'')] ''message'')
             (py_or (dict_get [(''error'', JStr ''overloaded'')] ''error'') (JStr ''Unknown error''))
           = JStr ''overloaded''"
    by (simp add: py_or_def dict_get_def)
  show ?thesis
    using handle_response_classification [of example_response example_repr
        "[(''error'', JStr ''overloaded'')]"] d c s m
    by (simp add: Let_def format_value_def)
qed

text \<open>
  The claim as stated, for every parsed body, fails: a body that is valid JSON but not an
  object (here the empty array) has no \<open>get\<close>, and a non-200 status ends in
  \<open>AttributeError\<close>, not in the typed error of the status.
\<close>

theorem handle_response_non_object_body:
  "handle_response example_repr \<lparr>status_code = 401, text = ''[]'', json = Some (JList [])\<rparr>
     = Inl AttributeError"
  by (simp add: handle_response_def response_data_def error_message_def)

text \<open>
  Claim C3, amended.  When the body is not JSON, the envelope is \<open>{'message': text}\<close> for
  a non-empty text and \<open>{'message': 'Unknown error'}\<close> for an empty one, and extraction
  yields that string.  On a JSON object, extraction does not fail and yields the
  \<open>message\<close> field if it is present and truthy, else the \<open>error\<close> field if it is present and
  truthy, else \<open>Unknown error\<close>; \<open>get\<close> gives \<open>None\<close>, which is falsy, for a missing key.
\<close>

theorem error_message_extraction:
  "(json r = None \<longrightarrow>
      response_data r =
        JObj [(''message'', JStr (if text r = [] then ''Unknown error'' else text r))] \<and>
      error_message (response_data r) =
        Inr (JStr (if text r = [] then ''Unknown error'' else text r))) \<and>
   (truthy (dict_get d ''message'') \<longrightarrow> error_message (JObj d) = Inr (dict_get d ''message'')) \<and>
   (\<not> truthy (dict_get d ''message'') \<and> truthy (dict_get d ''error'') \<longrightarrow>
      error_message (JObj d) = Inr (dict_get d ''error'')) \<and>
   (\<not> truthy (dict_get d ''message'') \<and> \<not> truthy (dict_get d ''error'') \<longrightarrow>
      error_message (JObj d) = Inr (JStr ''Unknown error'')) \<and>
   (map_of d k = None \<longrightarrow> \<not> truthy (dict_get d k)) \<and>
   (map_of d k = Some v \<longrightarrow> dict_get d k = v)"
  by (simp add: response_data_def error_message_def py_or_def dict_get_def)

theorem error_message_extraction_witness:
  "json example_bad_gateway = None \<and>
   error_message (response_data example_bad_gateway) = Inr (JStr ''Bad Gateway'') \<and>
   \<not> truthy (dict_get [(''error'', JStr ''boom'')] ''message'') \<and>
   truthy (dict_get [(''error'', JStr ''boom'')] ''error'') \<and>
   error_message (JObj [(''error'', JStr ''boom'')]) = Inr (JStr ''boom'')"
proof -
  note ex = error_message_extraction [of example_bad_gateway "[(''error'', JStr ''boom'')]"
      "''message''" JNull]
  have j: "json example_bad_gateway = None"
    by (simp add: example_bad_gateway_def)
  have t: "text example_bad_gateway = ''Bad Gateway''"
    by (simp add: example_bad_gateway_def)
  have "error_message (response_data example_bad_gateway) =
        Inr (JStr (if text example_bad_gateway = [] then ''Unknown error''
                   else text example_bad_gateway))"
    using ex j by blast
  then have a: "error_message (response_data example_bad_gateway) = Inr (JStr ''Bad Gateway'')"
    by (simp add: t)
  have m: "\<not> truthy (dict_get [(''error'', JStr ''boom'')] ''message'')"
    by (simp add: dict_get_def)
  have e: "truthy (dict_get [(''error'', JStr ''boom'')] ''error'')"
    by (simp add: dict_get_def)
  have "error_message (JObj [(''error'', JStr ''boom'')]) =
        Inr (dict_get [(''error'', JStr ''boom'')] ''error'')"
    using ex m e by blast
  then have b: "error_message (JObj [(''error'', JStr ''boom'')]) = Inr (JStr ''boom'')"
    by (simp add: dict_get_def)
  from j a m e b show ?thesis
    by blast
qed

text \<open>
  The claim as stated prefers \<open>message\<close> whenever it is present; a \<open>message\<close> that is
  present but empty is passed over for the \<open>error\<close> field.
\<close>

theorem error_message_falsy_message:
  "map_of [(''message'', JStr ''''), (''error'', JStr ''boom'')] ''message'' = Some (JStr '''') \<and>
   error_message (JObj [(''message'', JStr ''''), (''error'', JStr ''boom'')]) = Inr (JStr ''boom'')"
  by (simp add: error_message_def py_or_def dict_get_def)

text \<open>
  Claim C2.  For a status other than 200 the async client hands the mock response to the
  sync classifier, which raises its typed error \<open>e\<close> inside the request block; \<open>e\<close> is never
  a \<open>TypeError\<close>.  The error then reaches the handlers of \<^verbatim>\<open>_request\<close>, and what the caller
  of the async client gets is the \<open>TypeError\<close> of the first handler, not \<open>e\<close>.
\<close>

theorem async_request_error_path:
  "status resp \<noteq> 200 \<Longrightarrow>
   \<exists>e. handle_response rp (MockResponse loads (status resp) (aio_text resp)) = Inl e \<and>
       async_request_body rp loads resp = Inl e \<and>
       (\<forall>m. e \<noteq> TypeError m) \<and>
       async_request rp loads resp =
         Inl (TypeError ''catching classes that do not inherit from BaseException is not allowed'')"
proof -
  assume ne: "status resp \<noteq> 200"
  let ?r = "MockResponse loads (status resp) (aio_text resp)"
  have "status_code ?r \<noteq> 200"
    using ne by (simp add: MockResponse_def)
  then obtain e where e: "handle_response rp ?r = Inl e"
    using handle_response_error by blast
  have body: "async_request_body rp loads resp = Inl e"
    using ne e by (rule async_request_body_error_path)
  have nt: "\<forall>m. e \<noteq> TypeError m"
    using e handle_response_not_TypeError [of rp ?r] by auto
  have "async_request rp loads resp =
         Inl (TypeError ''catching classes that do not inherit from BaseException is not allowed'')"
    by (simp add: async_request_def body async_except_def)
  with e body nt show ?thesis
    by blast
qed

theorem async_request_error_path_witness:
  "status example_ClientResponse \<noteq> 200 \<and>
   handle_response example_repr
     (MockResponse example_loads (status example_ClientResponse) (aio_text example_ClientResponse)) =
     Inl (AuthenticationError (JStr ''Invalid API key'')) \<and>
   async_request example_repr example_loads example_ClientResponse =
     Inl (TypeError ''catching classes that do not inherit from BaseException is not allowed'')"
proof -
  have ne: "status example_ClientResponse \<noteq> 200"
    by (simp add: example_ClientResponse_def)
  have h: "handle_response example_repr
     (MockResponse example_loads (status example_ClientResponse) (aio_text example_ClientResponse)) =
     Inl (AuthenticationError (JStr ''Invalid API key''))"
    by (simp add: handle_response_def MockResponse_def example_loads_def response_data_def
        error_message_def py_or_def dict_get_def example_ClientResponse_def)
  from async_request_error_path [OF ne, of example_repr example_loads] h ne show ?thesis
    by auto
qed


section \<open>The claims about uploads\<close>

lemma str_nat_MAX_FILE_SIZE: "str_nat MAX_FILE_SIZE = ''104857600''"
  by (simp add: MAX_FILE_SIZE_def str_nat.simps digit_char_def)

lemma MAX_FILE_SIZE_value: "MAX_FILE_SIZE = 104857600"
  by (simp add: MAX_FILE_SIZE_def)

lemma request_logs:
  "requests (snd (request e self meth endpoint fs form st)) =
     requests st @ [\<lparr>method = meth, url = api_url self @ endpoint, data = form, files = fs\<rparr>]"
  by (simp add: request_def Let_def split: transport_result.split)

lemma upload_files_logs:
  "length (requests (snd (upload_files e self fs options st))) = Suc (length (requests st))"
proof -
  obtain r st' where r: "request e self ''POST'' ''/api/public/single'' fs (build_upload_data e options) st = (r, st')"
    by (cases "request e self ''POST'' ''/api/public/single'' fs (build_upload_data e options) st")
  have "length (requests st') = Suc (length (requests st))"
    using request_logs [of e self "''POST''" "''/api/public/single''" fs "build_upload_data e options" st] r
    by simp
  then show ?thesis
    unfolding upload_files_def r
    by (simp split: sum.split jvalue.split)
qed

lemma upload_file_in_range_sends:
  assumes "getsize e p = Some n" and "n \<le> MAX_FILE_SIZE" and "can_open e p"
  shows "length (requests (snd (upload_file e self (FilePath p) options st))) =
         Suc (length (requests st))"
proof -
  let ?f = "Opened (length (opens st))"
  let ?st1 = "st\<lparr>opens := opens st @ [?f]\<rparr>"
  let ?fs = "[(''file'', sanitize_filename p, ?f, get_file_mimetype e p)]"
  obtain r st2 where u: "upload_files e self ?fs (options_or_default options) ?st1 = (r, st2)"
    by (cases "upload_files e self ?fs (options_or_default options) ?st1")
  have "length (requests st2) = Suc (length (requests ?st1))"
    using upload_files_logs [of e self ?fs "options_or_default options" ?st1] u by simp
  moreover have "upload_file e self (FilePath p) options st = (r, st2\<lparr>closes := closes st2 @ [?f]\<rparr>)"
    using assms u by (simp add: upload_file_def validate_file_size_def Let_def)
  ultimately show ?thesis
    by simp
qed

text \<open>
  Claim C5.  For a path whose file is larger than \<open>MAX_FILE_SIZE\<close> (100 MB),
  \<open>upload_file\<close> raises \<open>FileTooLargeError\<close> and leaves the state as it was: no file is
  opened and the transport is not invoked.  (For a file within the limit the transport
  is invoked once, \<open>upload_file_in_range_sends\<close>.)
\<close>

theorem upload_file_too_large:
  "getsize e p = Some n \<Longrightarrow> MAX_FILE_SIZE < n \<Longrightarrow>
   upload_file e self (FilePath p) options st =
     (Inl (FileTooLargeError (JStr ''File exceeds maximum size of 104857600 bytes'')), st) \<and>
   requests (snd (upload_file e self (FilePath p) options st)) = requests st"
  by (simp add: upload_file_def validate_file_size_def str_nat_MAX_FILE_SIZE)

theorem upload_file_too_large_witness:
  "getsize example_env ''big.bin'' = Some 200000000 \<and> MAX_FILE_SIZE < 200000000 \<and>
   upload_file example_env example_client (FilePath ''big.bin'') None empty_io =
     (Inl (FileTooLargeError (JStr ''File exceeds maximum size of 104857600 bytes'')), empty_io)"
proof -
  have g: "getsize example_env ''big.bin'' = Some 200000000"
    by (simp add: example_env_def example_getsize_def)
  have m: "MAX_FILE_SIZE < 200000000"
    by (simp add: MAX_FILE_SIZE_def)
  from upload_file_too_large [OF g m, of example_client None empty_io] g m show ?thesis
    by blast
qed

lemma close_all_state:
  "closes (close_all fs st) = closes st @ map fileobj fs \<and>
   opens (close_all fs st) = opens st \<and> requests (close_all fs st) = requests st"
  by (induction fs st rule: close_all.induct) (simp_all add: fileobj_def)

lemma assemble_opens:
  "assemble e i fps fs st = (Inr fs', st') \<Longrightarrow>
   closes st' = closes st \<and> requests st' = requests st \<and>
   (\<exists>k. opens st' = opens st @ map Opened [length (opens st) ..< length (opens st) + k] \<and>
        filter opened_by_sdk (map fileobj fs') =
          filter opened_by_sdk (map fileobj fs) @
          map Opened [length (opens st) ..< length (opens st) + k])"
proof (induction e i fps fs st rule: assemble.induct)
  case (1 e i fs st)
  then show ?case
    by (auto intro: exI [of _ 0])
next
  case (2 e i p rest fs st)
  let ?f = "Opened (length (opens st))"
  let ?fs = "fs @ [(''files'', sanitize_filename p, ?f, get_file_mimetype e p)]"
  let ?st = "st\<lparr>opens := opens st @ [?f]\<rparr>"
  from "2.prems" have v: "validate_file_size e p MAX_FILE_SIZE = Inr True" and o: "can_open e p"
    and r: "assemble e (Suc i) rest ?fs ?st = (Inr fs', st')"
    by (auto simp: Let_def split: sum.splits if_splits)
  from "2.IH" [OF v _ _ refl r] o
  obtain k where c: "closes st' = closes ?st" "requests st' = requests ?st"
    and k: "opens st' = opens ?st @ map Opened [length (opens ?st) ..< length (opens ?st) + k]"
      "filter opened_by_sdk (map fileobj fs') =
         filter opened_by_sdk (map fileobj ?fs) @
         map Opened [length (opens ?st) ..< length (opens ?st) + k]"
    by auto
  have u: "[length (opens st) ..< Suc (length (opens st) + k)] =
      length (opens st) # [Suc (length (opens st)) ..< Suc (length (opens st) + k)]"
    by (simp add: upt_conv_Cons del: upt_Suc)
  have o': "opens st' = opens st @ map Opened [length (opens st) ..< length (opens st) + Suc k]"
    using k(1) by (simp add: u del: upt_Suc)
  have f': "filter opened_by_sdk (map fileobj fs') =
      filter opened_by_sdk (map fileobj fs) @
      map Opened [length (opens st) ..< length (opens st) + Suc k]"
    using k(2) by (simp add: u fileobj_def del: upt_Suc)
  from c o' f' show ?case
    by (intro conjI exI [of _ "Suc k"]) simp_all
next
  case (3 e i n rest fs st)
  then show ?case
    by (auto simp: fileobj_def)
qed

lemma upload_multiple_files_closes_all:
  assumes "assemble e 0 file_paths [] st = (Inr fs, st1)"
  shows "\<exists>k. opens (snd (upload_multiple_files e self conv file_paths options st)) =
           opens st @ map Opened [length (opens st) ..< length (opens st) + k] \<and>
         closes (snd (upload_multiple_files e self conv file_paths options st)) =
           closes st @ map fileobj fs \<and>
         filter opened_by_sdk (map fileobj fs) =
           map Opened [length (opens st) ..< length (opens st) + k]"
proof -
  from assemble_opens [OF assms] obtain k where
    a: "closes st1 = closes st" "requests st1 = requests st"
       "opens st1 = opens st @ map Opened [length (opens st) ..< length (opens st) + k]"
       "filter opened_by_sdk (map fileobj fs) =
          map Opened [length (opens st) ..< length (opens st) + k]"
    by auto
  let ?req = "request e self ''POST'' ''/api/public/multiple'' fs
      (build_upload_data e (options_or_default options)) st1"
  obtain r st2 where q: "?req = (r, st2)"
    by (cases ?req)
  have s2: "opens st2 = opens st1 \<and> closes st2 = closes st1"
    using q by (auto simp: request_def Let_def split: transport_result.splits)
  have "snd (upload_multiple_files e self conv file_paths options st) = close_all fs st2"
    using assms q by (simp add: upload_multiple_files_def Let_def)
  with s2 a show ?thesis
    by (auto simp: close_all_state)
qed

text \<open>
  Claim C4.  \<open>upload_multiple_files\<close> on two paths, the second one larger than the
  maximum: the first file has been opened when the size check of the second raises
  \<open>FileTooLargeError\<close>; the loop stands before the \<open>try\<close> statement, so the \<open>finally\<close>
  block does not run and the opened file is never closed.  (When the loop completes,
  \<open>close\<close> is called once on the file object of every part, whatever the request does,
  and the files the SDK opened are distinct: \<open>upload_multiple_files_closes_all\<close>.)
\<close>

theorem upload_multiple_files_leaks_handle:
  "upload_multiple_files example_env example_client conv
     [FilePath ''a.jpg'', FilePath ''big.bin''] None empty_io =
     (Inl (FileTooLargeError (JStr ''File big.bin exceeds maximum size'')),
      \<lparr>requests = [], opens = [Opened 0], closes = []\<rparr>)"
  by (simp add: upload_multiple_files_def example_env_def example_getsize_def empty_io_def
      validate_file_size_def MAX_FILE_SIZE_def)

lemma upload_multiple_files_closes_example:
  "opens (snd (upload_multiple_files example_env example_client conv
     [FilePath ''a.jpg'', FileObj 7, FilePath ''b.jpg''] None empty_io)) = [Opened 0, Opened 1] \<and>
   closes (snd (upload_multiple_files example_env example_client conv
     [FilePath ''a.jpg'', FileObj 7, FilePath ''b.jpg''] None empty_io)) = [Opened 0, Given 7, Opened 1]"
  by (simp add: upload_multiple_files_def example_env_def example_getsize_def empty_io_def
      validate_file_size_def MAX_FILE_SIZE_def request_def Let_def)


section \<open>The claim about File.from_dict\<close>


































end
